theory Spec2Isabelle
  imports Complex_Main
begin

section \<open>JavaScript values used by the gateway and the ledger\<close>

text \<open>
  The two programs are JavaScript. A JavaScript number is modelled as an exact rational
  (type \<open>rat\<close>), and the one non-finite value the billing path can produce, \<open>NaN\<close>, is a
  separate constructor. The arithmetic of the source agrees with exact arithmetic on
  integers of magnitude below \<open>2 ^ 53\<close>, which is the range the ledger is meant to work in;
  \<open>Infinity\<close> is outside the model.
\<close>

datatype jsnum = Num rat | NaN

text \<open>\<open>x || 0\<close> on a number or \<open>undefined\<close>: every falsy value (\<open>undefined\<close>, \<open>0\<close>, \<open>NaN\<close>) reads as 0.\<close>

fun or_zero :: "jsnum option \<Rightarrow> rat" where
  "or_zero None = 0"
| "or_zero (Some NaN) = 0"
| "or_zero (Some (Num v)) = v"

text \<open>\<open>a < b\<close> with a finite left operand: a comparison with \<open>NaN\<close> is false.\<close>

fun js_less :: "rat \<Rightarrow> jsnum \<Rightarrow> bool" where
  "js_less a (Num b) = (a < b)"
| "js_less a NaN = False"

fun js_minus :: "rat \<Rightarrow> jsnum \<Rightarrow> jsnum" where
  "js_minus a (Num b) = Num (a - b)"
| "js_minus a NaN = NaN"

text \<open>\<open>Math.ceil\<close> and \<open>Math.round\<close> (which rounds halves towards plus infinity).\<close>

definition Math_ceil :: "rat \<Rightarrow> rat" where
  "Math_ceil x = of_int \<lceil>x\<rceil>"



definition startsWith :: "string \<Rightarrow> string \<Rightarrow> bool" where
  "startsWith s p = (take (length p) s = p)"

subsection \<open>Property lookup on an object literal\<close>

text \<open>
  \<open>PRICING[model]\<close> reads a property of an object literal. The literal's own keys come
  first; a key the literal does not have is looked up on \<open>Object.prototype\<close>, so the
  names below yield an inherited member (a function or the prototype object, all truthy)
  rather than \<open>undefined\<close>.
\<close>

datatype 'a lookup = Own 'a | Inherited | Absent

definition object_prototype_keys :: "string list" where
  "object_prototype_keys =
     [''constructor'', ''__defineGetter__'', ''__defineSetter__'', ''hasOwnProperty'',
      ''__lookupGetter__'', ''__lookupSetter__'', ''isPrototypeOf'',
      ''propertyIsEnumerable'', ''toString'', ''valueOf'', ''__proto__'',
      ''toLocaleString'']"

definition obj_get :: "(string \<times> 'a) list \<Rightarrow> string \<Rightarrow> 'a lookup" where
  "obj_get obj k =
     (case map_of obj k of
        Some v \<Rightarrow> Own v
      | None \<Rightarrow> if k \<in> set object_prototype_keys then Inherited else Absent)"

section \<open>Pricing table and cost engine (the proxy)\<close>

record pricing_row =
  input_rate :: rat
  output_rate :: rat

definition PRICING :: "(string \<times> pricing_row) list" where
  "PRICING =
     [(''gpt-4o'', \<lparr>input_rate = 2500000, output_rate = 10000000\<rparr>),
      (''gpt-4o-mini'', \<lparr>input_rate = 150000, output_rate = 600000\<rparr>),
      (''gpt-4-turbo'', \<lparr>input_rate = 10000000, output_rate = 30000000\<rparr>),
      (''gpt-3.5-turbo'', \<lparr>input_rate = 500000, output_rate = 1500000\<rparr>),
      (''o1'', \<lparr>input_rate = 15000000, output_rate = 60000000\<rparr>),
      (''o1-mini'', \<lparr>input_rate = 3000000, output_rate = 12000000\<rparr>),
      (''o3-mini'', \<lparr>input_rate = 1100000, output_rate = 4400000\<rparr>),
      (''claude-sonnet-4-20250514'', \<lparr>input_rate = 3000000, output_rate = 15000000\<rparr>),
      (''claude-opus-4-20250514'', \<lparr>input_rate = 15000000, output_rate = 75000000\<rparr>),
      (''claude-haiku-4-20250414'', \<lparr>input_rate = 800000, output_rate = 4000000\<rparr>),
      (''claude-3-5-sonnet-20241022'', \<lparr>input_rate = 3000000, output_rate = 15000000\<rparr>),
      (''claude-3-5-haiku-20241022'', \<lparr>input_rate = 800000, output_rate = 4000000\<rparr>),
      (''gemini-2.5-pro'', \<lparr>input_rate = 1250000, output_rate = 10000000\<rparr>),
      (''gemini-2.5-flash'', \<lparr>input_rate = 150000, output_rate = 600000\<rparr>),
      (''gemini-2.0-flash'', \<lparr>input_rate = 100000, output_rate = 400000\<rparr>),
      (''mistral-large-latest'', \<lparr>input_rate = 2000000, output_rate = 6000000\<rparr>),
      (''mistral-small-latest'', \<lparr>input_rate = 200000, output_rate = 600000\<rparr>),
      (''meta-llama/Llama-3.1-70B-Instruct-Turbo'', \<lparr>input_rate = 880000, output_rate = 880000\<rparr>),
      (''meta-llama/Llama-3.1-8B-Instruct-Turbo'', \<lparr>input_rate = 180000, output_rate = 180000\<rparr>),
      (''deepseek-ai/DeepSeek-V3'', \<lparr>input_rate = 900000, output_rate = 900000\<rparr>)]"

definition DEFAULT_PRICING :: pricing_row where
  "DEFAULT_PRICING = \<lparr>input_rate = 2500000, output_rate = 10000000\<rparr>"

definition MIN_BALANCE_MICROS :: rat where
  "MIN_BALANCE_MICROS = 1000"

text \<open>
  \<open>const p = PRICING[model] || DEFAULT_PRICING\<close>: an own row is used as it is and a
  missing key falls back to the default. An inherited member is truthy, so it is kept as
  \<open>p\<close>; its \<open>input\<close> and \<open>output\<close> properties are \<open>undefined\<close>, both products are \<open>NaN\<close>, and so
  is the result of \<open>Math.ceil\<close>.
\<close>

definition cost_at :: "pricing_row \<Rightarrow> rat \<Rightarrow> rat \<Rightarrow> rat" where
  "cost_at p promptTokens completionTokens =
     Math_ceil ((promptTokens * input_rate p + completionTokens * output_rate p) / 1000000)"

definition calculateCostMicros :: "string \<Rightarrow> rat \<Rightarrow> rat \<Rightarrow> jsnum" where
  "calculateCostMicros model promptTokens completionTokens =
     (case obj_get PRICING model of
        Own p \<Rightarrow> Num (cost_at p promptTokens completionTokens)
      | Absent \<Rightarrow> Num (cost_at DEFAULT_PRICING promptTokens completionTokens)
      | Inherited \<Rightarrow> NaN)"

section \<open>The store: account documents and the journal\<close>

text \<open>
  An account document holds a \<open>balances\<close> map from currency code to a number. The code
  always reads it as \<open>snap.data().balances || {}\<close>, so a document without the field is the
  same as one with an empty map. The journal is the \<open>transactions\<close> collection; documents
  are only ever created in it, under fresh ids, so it is a list in commit order. The
  server timestamp \<open>createdAt\<close> is left out, and the fields of an entry carry the prefix
  \<open>entry_\<close>.
\<close>

record account =
  balances :: "string \<rightharpoonup> jsnum"
  status :: string
  email :: string

datatype entry_type = deposit | llm_usage | transfer_out | transfer_in | conversion

datatype metadata =
    NoMetadata
  | Counterparty string
  | ConversionMeta string string rat rat rat
  | UsageMeta string string rat rat

record journal_entry =
  entry_accountId :: string
  entry_type :: entry_type
  entry_currency :: string
  entry_amount :: jsnum
  entry_balanceBefore :: rat
  entry_balanceAfter :: jsnum
  entry_description :: string
  entry_metadata :: metadata

record store =
  accounts :: "string \<rightharpoonup> account"
  transactions :: "journal_entry list"

text \<open>
  Errors are values. \<open>Error m\<close> is \<open>new Error(m)\<close>; \<open>AxiosError st\<close> is a rejection of
  the HTTP client that carries a response with status \<open>st\<close>, \<open>NetworkError\<close> one that
  carries none.
\<close>

datatype js_error =
    RangeError | TypeError | SyntaxError
  | Error string
  | AxiosError nat
  | NetworkError

text \<open>
  A handler either sends a response (status and body) or lets an exception escape, in which
  case it sends nothing itself.
\<close>

datatype 'p http_result = Response nat 'p | Uncaught js_error

text \<open>\<open>err.message === m\<close>: only \<open>new Error(m)\<close> has the message \<open>m\<close> among the errors here.\<close>

fun has_message :: "js_error \<Rightarrow> string \<Rightarrow> bool" where
  "has_message (Error m) x = (m = x)"
| "has_message _ x = False"


text \<open>
  The outcome of \<open>verifyIdToken\<close> (the identity backend is external): no bearer header, a
  token the verifier rejects, or the verified uid.
\<close>

datatype auth_result = NoBearer | InvalidToken | Verified string

text \<open>
  \<open>db.runTransaction\<close>: the writes of the callback are buffered and committed together
  when it returns; when it throws, nothing is written and the error is rethrown.
\<close>

definition runTransaction ::
  "(store \<Rightarrow> js_error + ('a \<times> store)) \<Rightarrow> store \<Rightarrow> (js_error + 'a) \<times> store" where
  "runTransaction f s =
     (case f s of
        Inl e \<Rightarrow> (Inl e, s)
      | Inr (v, s') \<Rightarrow> (Inr v, s'))"

text \<open>
  \<open>tx.update\<close> of the one field \<open>balances.c\<close> of the document that was read as \<open>acct\<close>,
  and \<open>tx.create\<close> of a journal document. Every handler checks that the document exists
  before it updates it. Document ids are opaque strings, and an outage of the store is not
  modelled.
\<close>

definition tx_update :: "string \<Rightarrow> account \<Rightarrow> string \<Rightarrow> jsnum \<Rightarrow> store \<Rightarrow> store" where
  "tx_update uid acct c v s =
     s\<lparr>accounts := (accounts s)(uid \<mapsto> acct\<lparr>balances := (balances acct)(c \<mapsto> v)\<rparr>)\<rparr>"

definition tx_create :: "journal_entry \<Rightarrow> store \<Rightarrow> store" where
  "tx_create e s = s\<lparr>transactions := transactions s @ [e]\<rparr>"

section \<open>The ledger functions (functions/index.js)\<close>

definition SUPPORTED :: "string list" where
  "SUPPORTED = [''USD'', ''USDC'', ''ETH'', ''BTC'', ''SOL'']"


text \<open>
  \<open>EMPTY_BALANCES\<close> holds 0 for every supported currency; signup writes it into a new
  account. \<open>seedAccount\<close> is the helper of the handlers' test suite that puts an account
  with given balances into the store.
\<close>

definition EMPTY_BALANCES :: "string \<rightharpoonup> jsnum" where
  "EMPTY_BALANCES = map_of (map (\<lambda>c. (c, Num 0)) SUPPORTED)"

definition seedAccount :: "string \<Rightarrow> (string \<rightharpoonup> jsnum) \<Rightarrow> store \<Rightarrow> store" where
  "seedAccount uid bals s =
     s\<lparr>accounts := (accounts s)(uid \<mapsto>
         \<lparr>balances = bals, status = ''active'', email = uid @ ''@test.com''\<rparr>)\<rparr>"

definition empty_store :: store where
  "empty_store = \<lparr>accounts = Map.empty, transactions = []\<rparr>"

subsection \<open>convertCurrency\<close>









subsection \<open>isAdmin\<close>

text \<open>
  \<open>key && req.headers["x-admin-key"] === key\<close>: an unset or empty \<open>ADMIN_API_KEY\<close> is
  falsy; otherwise the header (absent, or a string) is compared with strict equality.
\<close>

definition isAdmin :: "string option \<Rightarrow> string option \<Rightarrow> bool" where
  "isAdmin ADMIN_API_KEY x_admin_key =
     (case ADMIN_API_KEY of
        None \<Rightarrow> False
      | Some key \<Rightarrow> key \<noteq> [] \<and> x_admin_key = Some key)"

subsection \<open>Request validation shared by the handlers\<close>

text \<open>
  Body fields: an id or currency is \<open>None\<close> when the field is absent; an amount is \<open>None\<close>
  when the field is absent or not of type number. \<open>!x\<close> holds of an absent or empty string.
\<close>

definition falsy :: "string option \<Rightarrow> bool" where
  "falsy x = (case x of None \<Rightarrow> True | Some v \<Rightarrow> v = [])"

definition bad_amount :: "rat option \<Rightarrow> bool" where
  "bad_amount amount = (case amount of None \<Rightarrow> True | Some a \<Rightarrow> a \<le> 0)"

definition supported :: "string option \<Rightarrow> bool" where
  "supported c = (case c of None \<Rightarrow> False | Some v \<Rightarrow> v \<in> set SUPPORTED)"

datatype payload =
    ErrorMsg string
  | BalanceOf string rat
  | ConvertedTo string rat string rat "string \<rightharpoonup> jsnum"

subsection \<open>deposit\<close>

definition deposit_tx :: "string \<Rightarrow> rat \<Rightarrow> string \<Rightarrow> store \<Rightarrow> js_error + (rat \<times> store)" where
  "deposit_tx accountId amount currency s =
     (case accounts s accountId of
        None \<Rightarrow> Inl (Error ''ACCOUNT_NOT_FOUND'')
      | Some acct \<Rightarrow>
          let cur = or_zero (balances acct currency);
              balAfter = cur + amount
          in Inr (balAfter,
               tx_create
                 \<lparr>entry_accountId = accountId, entry_type = deposit,
                  entry_currency = currency, entry_amount = Num amount,
                  entry_balanceBefore = cur, entry_balanceAfter = Num balAfter,
                  entry_description = currency @ '' deposit'',
                  entry_metadata = NoMetadata\<rparr>
                 (tx_update accountId acct currency (Num balAfter) s)))"

definition deposit_handler ::
  "string option \<Rightarrow> string \<Rightarrow> string option \<Rightarrow> string option \<Rightarrow> rat option \<Rightarrow> string option
     \<Rightarrow> store \<Rightarrow> payload http_result \<times> store" where
  "deposit_handler ADMIN_API_KEY method x_admin_key accountId amount currency s =
     (if method \<noteq> ''POST'' then (Response 405 (ErrorMsg ''Use POST''), s)
      else if \<not> isAdmin ADMIN_API_KEY x_admin_key then (Response 403 (ErrorMsg ''Forbidden''), s)
      else if falsy accountId \<or> bad_amount amount then
        (Response 400 (ErrorMsg ''accountId and positive amount required''), s)
      else if \<not> supported currency then
        (Response 400 (ErrorMsg ''Unsupported currency. Use: USD,USDC,ETH,BTC,SOL''), s)
      else
        (case (accountId, amount, currency) of
           (Some aid, Some a, Some c) \<Rightarrow>
             (case runTransaction (deposit_tx aid a c) s of
                (Inr balAfter, s') \<Rightarrow> (Response 200 (BalanceOf c balAfter), s')
              | (Inl err, s') \<Rightarrow>
                  if has_message err ''ACCOUNT_NOT_FOUND''
                  then (Response 404 (ErrorMsg ''Account not found''), s')
                  else (Response 500 (ErrorMsg ''Deposit failed''), s'))
         | _ \<Rightarrow> (Response 400 (ErrorMsg ''accountId and positive amount required''), s)))"

subsection \<open>transfer\<close>




subsection \<open>convert\<close>




section \<open>The proxy (provider routing, translation, billing)\<close>

subsection \<open>Provider registry\<close>

datatype provider = openai | anthropic | google | mistral | together

record provider_config =
  baseUrl :: string
  secret :: string
  translate :: bool

fun PROVIDERS :: "provider \<Rightarrow> provider_config" where
  "PROVIDERS openai =
     \<lparr>baseUrl = ''https://api.openai.com/v1/chat/completions'',
      secret = ''OPENAI_API_KEY'', translate = False\<rparr>"
| "PROVIDERS anthropic =
     \<lparr>baseUrl = ''https://api.anthropic.com/v1/messages'',
      secret = ''ANTHROPIC_API_KEY'', translate = True\<rparr>"
| "PROVIDERS google =
     \<lparr>baseUrl = ''https://generativelanguage.googleapis.com/v1beta/openai/chat/completions'',
      secret = ''GOOGLE_API_KEY'', translate = False\<rparr>"
| "PROVIDERS mistral =
     \<lparr>baseUrl = ''https://api.mistral.ai/v1/chat/completions'',
      secret = ''MISTRAL_API_KEY'', translate = False\<rparr>"
| "PROVIDERS together =
     \<lparr>baseUrl = ''https://api.together.xyz/v1/chat/completions'',
      secret = ''TOGETHER_API_KEY'', translate = False\<rparr>"

fun provider_name :: "provider \<Rightarrow> string" where
  "provider_name openai = ''openai''"
| "provider_name anthropic = ''anthropic''"
| "provider_name google = ''google''"
| "provider_name mistral = ''mistral''"
| "provider_name together = ''together''"

definition detectProvider :: "string \<Rightarrow> provider" where
  "detectProvider model =
     (if startsWith model ''gpt-'' \<or> startsWith model ''o1'' \<or> startsWith model ''o3''
         \<or> startsWith model ''o4'' then openai
      else if startsWith model ''claude-'' then anthropic
      else if startsWith model ''gemini-'' then google
      else if startsWith model ''mistral-'' then mistral
      else together)"

subsection \<open>Canonical request and the Anthropic translation\<close>

record message =
  role :: string
  content :: string

datatype stop_value = StopString string | StopArray "string list"

record chat_request =
  req_model :: "string option"
  req_messages :: "message list"
  req_max_tokens :: "rat option"
  req_temperature :: "rat option"
  req_top_p :: "rat option"
  req_stop :: "stop_value option"
  req_tools :: bool

definition ANTHROPIC_MAX_TOKENS :: "(string \<times> rat) list" where
  "ANTHROPIC_MAX_TOKENS =
     [(''claude-sonnet-4-20250514'', 8192),
      (''claude-opus-4-20250514'', 8192),
      (''claude-haiku-4-20250414'', 8192),
      (''claude-3-5-sonnet-20241022'', 8192),
      (''claude-3-5-haiku-20241022'', 8192)]"

text \<open>
  The value of \<open>max_tokens\<close> in the translated request is a number, or the inherited
  member that \<open>ANTHROPIC_MAX_TOKENS[model]\<close> yields for a name of \<open>Object.prototype\<close>.
\<close>

datatype max_tokens_value = MaxTokens rat | InheritedMember

record anthropic_request =
  areq_model :: "string option"
  areq_messages :: "message list"
  areq_max_tokens :: max_tokens_value
  areq_system :: "string option"
  areq_temperature :: "rat option"
  areq_top_p :: "rat option"
  areq_stop_sequences :: "string list option"

text \<open>
  The loop over \<open>messages\<close>, with its two variables \<open>system\<close> (\<open>undefined\<close> at first) and
  \<open>filtered\<close>. \<open>system ? \<dots> : m.content\<close> tests truthiness: an empty string counts as
  no system text so far. A message that continues the role of the last element of
  \<open>filtered\<close> is appended to that element's content.
\<close>

definition truthy_string :: "string option \<Rightarrow> bool" where
  "truthy_string x = (case x of None \<Rightarrow> False | Some v \<Rightarrow> v \<noteq> [])"

definition add_system :: "string option \<Rightarrow> string \<Rightarrow> string option" where
  "add_system system c =
     (case system of
        None \<Rightarrow> Some c
      | Some sys \<Rightarrow> if sys \<noteq> [] then Some (sys @ [CHR 0x0A] @ c) else Some c)"

definition push_or_merge :: "message list \<Rightarrow> message \<Rightarrow> message list" where
  "push_or_merge filtered m =
     (if filtered \<noteq> [] \<and> role (last filtered) = role m
      then butlast filtered
             @ [(last filtered)\<lparr>content := content (last filtered) @ [CHR 0x0A] @ content m\<rparr>]
      else filtered @ [\<lparr>role = role m, content = content m\<rparr>])"

fun translate_loop ::
  "message list \<Rightarrow> string option \<Rightarrow> message list \<Rightarrow> string option \<times> message list" where
  "translate_loop [] system filtered = (system, filtered)"
| "translate_loop (m # ms) system filtered =
     (if role m = ''system''
      then translate_loop ms (add_system system (content m)) filtered
      else translate_loop ms system (push_or_merge filtered m))"

text \<open>\<open>max_tokens || ANTHROPIC_MAX_TOKENS[model] || 4096\<close>; a \<open>max_tokens\<close> of 0 is falsy.\<close>

definition max_tokens_for :: "rat option \<Rightarrow> string option \<Rightarrow> max_tokens_value" where
  "max_tokens_for max_tokens model =
     (case (case max_tokens of None \<Rightarrow> None | Some v \<Rightarrow> if v = 0 then None else Some v) of
        Some v \<Rightarrow> MaxTokens v
      | None \<Rightarrow>
          (case model of
             None \<Rightarrow> MaxTokens 4096
           | Some m \<Rightarrow>
               (case obj_get ANTHROPIC_MAX_TOKENS m of
                  Own v \<Rightarrow> if v = 0 then MaxTokens 4096 else MaxTokens v
                | Inherited \<Rightarrow> InheritedMember
                | Absent \<Rightarrow> MaxTokens 4096)))"

text \<open>\<open>if (stop) req.stop_sequences = Array.isArray(stop) ? stop : [stop]\<close>.\<close>

definition stop_sequences_of :: "stop_value option \<Rightarrow> string list option" where
  "stop_sequences_of stop =
     (case stop of
        None \<Rightarrow> None
      | Some (StopArray xs) \<Rightarrow> Some xs
      | Some (StopString x) \<Rightarrow> if x = [] then None else Some [x])"

definition toAnthropicRequest :: "chat_request \<Rightarrow> anthropic_request" where
  "toAnthropicRequest body =
     (case translate_loop (req_messages body) None [] of
        (system, filtered) \<Rightarrow>
          \<lparr>areq_model = req_model body,
           areq_messages = filtered,
           areq_max_tokens = max_tokens_for (req_max_tokens body) (req_model body),
           areq_system = (if truthy_string system then system else None),
           areq_temperature = req_temperature body,
           areq_top_p = req_top_p body,
           areq_stop_sequences = stop_sequences_of (req_stop body)\<rparr>)"

subsection \<open>Provider responses\<close>

text \<open>
  The canonical response, with the fields the proxy reads (\<open>model\<close>, \<open>usage\<close>) and the
  assistant text; \<open>usage\<close> may be missing from a provider's reply. The fields \<open>created\<close>
  and \<open>finish_reason\<close>, which no operation here reads, are left out.
\<close>

record usage =
  prompt_tokens :: rat
  completion_tokens :: rat
  total_tokens :: rat

record chat_response =
  res_id :: string
  res_model :: string
  res_content :: string
  res_usage :: "usage option"

record content_block =
  block_type :: string
  block_text :: string

record anthropic_usage =
  input_tokens :: rat
  output_tokens :: rat

record anthropic_response =
  ares_id :: string
  ares_model :: string
  ares_content :: "content_block list"
  ares_usage :: anthropic_usage

definition fromAnthropicResponse :: "anthropic_response \<Rightarrow> chat_response" where
  "fromAnthropicResponse data =
     \<lparr>res_id = ares_id data,
      res_model = ares_model data,
      res_content =
        concat (map block_text (filter (\<lambda>c. block_type c = ''text'') (ares_content data))),
      res_usage =
        Some \<lparr>prompt_tokens = input_tokens (ares_usage data),
              completion_tokens = output_tokens (ares_usage data),
              total_tokens = input_tokens (ares_usage data) + output_tokens (ares_usage data)\<rparr>\<rparr>"

subsection \<open>The chat completions handler\<close>

text \<open>
  The environment of the handler: \<open>getApiKey\<close> maps a secret name to a key or throws
  (\<open>None\<close>); \<open>axios.post\<close> maps the URL, the request body and the key to the provider's
  reply, or rejects. A reply is in the canonical format or in Anthropic's.
\<close>

datatype upstream_body = Passthrough chat_request | Translated anthropic_request

datatype upstream_data = CanonicalData chat_response | AnthropicData anthropic_response

datatype proxy_payload =
    ProxyError string
  | UpstreamError string
  | Completion chat_response jsnum jsnum string

text \<open>
  \<open>provider.translate ? fromAnthropicResponse(response.data) : response.data\<close>, followed
  by the reads of \<open>result.usage\<close>. A canonical reply has no \<open>content\<close> array, so translating it
  throws a TypeError, as does reading the token counts of a reply without \<open>usage\<close>. An
  Anthropic reply taken untranslated has no \<open>prompt_tokens\<close>; the journal entry would
  hold \<open>undefined\<close>, which the store refuses, so the transaction throws.
\<close>

definition read_result :: "bool \<Rightarrow> upstream_data \<Rightarrow> js_error + (chat_response \<times> usage)" where
  "read_result translating data =
     (case (translating, data) of
        (True, AnthropicData d) \<Rightarrow>
          (case res_usage (fromAnthropicResponse d) of
             Some u \<Rightarrow> Inr (fromAnthropicResponse d, u)
           | None \<Rightarrow> Inl TypeError)
      | (True, CanonicalData r) \<Rightarrow> Inl TypeError
      | (False, CanonicalData r) \<Rightarrow>
          (case res_usage r of
             Some u \<Rightarrow> Inr (r, u)
           | None \<Rightarrow> Inl TypeError)
      | (False, AnthropicData d) \<Rightarrow>
          Inl (Error ''Cannot use undefined as a Firestore value''))"

text \<open>
  The debit transaction. \<open>snap.data()\<close> of a missing document is \<open>undefined\<close>, and reading
  \<open>balances\<close> of it throws a TypeError.
\<close>

definition debit_tx ::
  "string \<Rightarrow> provider \<Rightarrow> chat_response \<Rightarrow> usage \<Rightarrow> jsnum \<Rightarrow> store
     \<Rightarrow> js_error + (jsnum \<times> store)" where
  "debit_tx uid providerName result usg costMicros s =
     (case accounts s uid of
        None \<Rightarrow> Inl TypeError
      | Some acct \<Rightarrow>
          let current = or_zero (balances acct ''USD'') in
          if js_less current costMicros then Inl (Error ''INSUFFICIENT_FUNDS'')
          else
            let after = js_minus current costMicros
            in Inr (after,
                 tx_create
                   \<lparr>entry_accountId = uid, entry_type = llm_usage,
                    entry_currency = ''USD'', entry_amount = costMicros,
                    entry_balanceBefore = current, entry_balanceAfter = after,
                    entry_description = res_model result @ '' completion'',
                    entry_metadata =
                      UsageMeta (provider_name providerName) (res_model result)
                        (prompt_tokens usg) (completion_tokens usg)\<rparr>
                   (tx_update uid acct ''USD'' after s)))"

text \<open>
  The \<open>try\<close> block: call the provider, translate the reply back, compute the cost from the
  reply, debit. Its result is the response to send and the store, or the error thrown.
\<close>

definition requestBody :: "provider_config \<Rightarrow> chat_request \<Rightarrow> upstream_body" where
  "requestBody prov body =
     (if translate prov then Translated (toAnthropicRequest body) else Passthrough body)"

definition call_and_debit ::
  "(string \<Rightarrow> upstream_body \<Rightarrow> string \<Rightarrow> js_error + upstream_data) \<Rightarrow> string \<Rightarrow> provider
     \<Rightarrow> string \<Rightarrow> chat_request \<Rightarrow> store \<Rightarrow> (js_error + proxy_payload) \<times> store" where
  "call_and_debit axios_post uid providerName apiKey body s =
     (let prov = PROVIDERS providerName in
      case axios_post (baseUrl prov) (requestBody prov body) apiKey of
        Inl err \<Rightarrow> (Inl err, s)
      | Inr data \<Rightarrow>
          (case read_result (translate prov) data of
             Inl err \<Rightarrow> (Inl err, s)
           | Inr (result, usg) \<Rightarrow>
               let costMicros =
                     calculateCostMicros (res_model result) (prompt_tokens usg)
                       (completion_tokens usg)
               in
               (case runTransaction (debit_tx uid providerName result usg costMicros) s of
                  (Inl err, s') \<Rightarrow> (Inl err, s')
                | (Inr after, s') \<Rightarrow>
                    (Inr (Completion result costMicros after (provider_name providerName)), s'))))"

text \<open>The \<open>catch\<close> block.\<close>

definition proxy_catch :: "provider \<Rightarrow> js_error \<Rightarrow> proxy_payload http_result" where
  "proxy_catch providerName e =
     (if has_message e ''INSUFFICIENT_FUNDS''
      then Response 402 (ProxyError ''Insufficient USD balance'')
      else
        (case e of
           AxiosError st \<Rightarrow> Response st (UpstreamError (provider_name providerName @ '' API error''))
         | _ \<Rightarrow> Response 500 (ProxyError ''Internal error'')))"

text \<open>
  The handler behind the \<open>authenticate\<close> middleware, in the order of the source: the
  checks that answer before any provider call (\<open>preflight\<close>), then the \<open>try\<close> block and its
  \<open>catch\<close>. The pre-check reads the account outside any transaction, in the store \<open>s0\<close>
  of that moment; the debit transaction runs later, on the store \<open>s\<close> that other requests
  may have changed in between.
\<close>

definition preflight ::
  "(string \<Rightarrow> string option) \<Rightarrow> auth_result \<Rightarrow> chat_request \<Rightarrow> store
     \<Rightarrow> proxy_payload http_result + (string \<times> provider \<times> string)" where
  "preflight getApiKey auth body s0 =
     (case auth of
        NoBearer \<Rightarrow> Inl (Response 401 (ProxyError ''Missing Authorization header''))
      | InvalidToken \<Rightarrow> Inl (Response 401 (ProxyError ''Invalid or expired token''))
      | Verified uid \<Rightarrow>
          (case req_model body of
             None \<Rightarrow> Inl (Response 400 (ProxyError ''model is required''))
           | Some model \<Rightarrow>
               if model = [] then Inl (Response 400 (ProxyError ''model is required''))
               else
                 let providerName = detectProvider model in
                 if providerName = anthropic \<and> req_tools body then
                   Inl (Response 400
                      (ProxyError
                         ''Tool use with Claude models is not yet supported through the proxy''))
                 else
                   (case accounts s0 uid of
                      None \<Rightarrow> Inl (Response 404 (ProxyError ''Account not found''))
                    | Some acct \<Rightarrow>
                        if or_zero (balances acct ''USD'') < MIN_BALANCE_MICROS then
                          Inl (Response 402
                             (ProxyError
                                ''Insufficient USD balance. Convert or deposit USD first.''))
                        else
                          (case getApiKey (secret (PROVIDERS providerName)) of
                             None \<Rightarrow>
                               Inl (Response 503
                                  (ProxyError (provider_name providerName @ '' is not configured'')))
                           | Some apiKey \<Rightarrow> Inr (uid, providerName, apiKey)))))"

definition chat_completions ::
  "(string \<Rightarrow> string option) \<Rightarrow> (string \<Rightarrow> upstream_body \<Rightarrow> string \<Rightarrow> js_error + upstream_data)
     \<Rightarrow> auth_result \<Rightarrow> chat_request \<Rightarrow> store \<Rightarrow> store \<Rightarrow> proxy_payload http_result \<times> store" where
  "chat_completions getApiKey axios_post auth body s0 s =
     (case preflight getApiKey auth body s0 of
        Inl early \<Rightarrow> (early, s)
      | Inr (uid, providerName, apiKey) \<Rightarrow>
          (case call_and_debit axios_post uid providerName apiKey body s of
             (Inr ok, s') \<Rightarrow> (Response 200 ok, s')
           | (Inl err, s') \<Rightarrow> (proxy_catch providerName err, s')))"

text \<open>
  Fixtures of the proxy's test suite: a canonical reply with given model and token counts,
  and a request that carries only \<open>model\<close> and \<open>messages\<close>.
\<close>

definition mockOpenAIResponse :: "string \<Rightarrow> rat \<Rightarrow> rat \<Rightarrow> upstream_data" where
  "mockOpenAIResponse model promptTokens completionTokens =
     CanonicalData
       \<lparr>res_id = ''chatcmpl-abc123'', res_model = model,
        res_content = ''Hello! How can I help?'',
        res_usage = Some \<lparr>prompt_tokens = promptTokens, completion_tokens = completionTokens,
                          total_tokens = promptTokens + completionTokens\<rparr>\<rparr>"

definition simple_request :: "string \<Rightarrow> message list \<Rightarrow> chat_request" where
  "simple_request model msgs =
     \<lparr>req_model = Some model, req_messages = msgs, req_max_tokens = None,
      req_temperature = None, req_top_p = None, req_stop = None, req_tools = False\<rparr>"

section \<open>Properties stated by the specification\<close>



definition balances_all :: "(jsnum option \<Rightarrow> bool) \<Rightarrow> store \<Rightarrow> bool" where
  "balances_all P s =
     (\<forall>uid acct. accounts s uid = Some acct \<longrightarrow> (\<forall>c \<in> set SUPPORTED. P (balances acct c)))"

text \<open>
  The translation as the specification words it: joining strings with a newline, and
  coalescing adjacent messages of the same role.
\<close>

fun join_nl :: "string list \<Rightarrow> string" where
  "join_nl [] = []"
| "join_nl [x] = x"
| "join_nl (x # y # ys) = x @ [CHR 0x0A] @ join_nl (y # ys)"

fun coalesce :: "message list \<Rightarrow> message list" where
  "coalesce (m1 # m2 # ms) =
     (if role m1 = role m2
      then coalesce (m1\<lparr>content := content m1 @ [CHR 0x0A] @ content m2\<rparr> # ms)
      else m1 # coalesce (m2 # ms))"
| "coalesce ms = ms"

text \<open>
  The model and the token counts that a provider's reply reports, in either wire format.
\<close>

definition reply_model :: "upstream_data \<Rightarrow> string" where
  "reply_model data =
     (case data of CanonicalData r \<Rightarrow> res_model r | AnthropicData d \<Rightarrow> ares_model d)"

definition reply_tokens :: "upstream_data \<Rightarrow> (rat \<times> rat) option" where
  "reply_tokens data =
     (case data of
        CanonicalData r \<Rightarrow>
          (case res_usage r of
             None \<Rightarrow> None
           | Some u \<Rightarrow> Some (prompt_tokens u, completion_tokens u))
      | AnthropicData d \<Rightarrow> Some (input_tokens (ares_usage d), output_tokens (ares_usage d)))"

section \<open>Proofs\<close>

subsection \<open>The cost engine\<close>

lemma calculateCostMicros_known_or_unknown:
  assumes "model \<notin> set object_prototype_keys"
    and "r = (case map_of PRICING model of Some row \<Rightarrow> row | None \<Rightarrow> DEFAULT_PRICING)"
  shows "calculateCostMicros model (of_nat p) (of_nat c)
           = Num (of_int \<lceil>(of_nat p * input_rate r + of_nat c * output_rate r) / 1000000\<rceil>)"
  using assms
  by (simp add: calculateCostMicros_def obj_get_def cost_at_def Math_ceil_def split: option.splits)

lemma default_is_gpt4o: "map_of PRICING ''gpt-4o'' = Some DEFAULT_PRICING"
  by (simp add: PRICING_def DEFAULT_PRICING_def)

lemma calculateCostMicros_zero:
  "model \<notin> set object_prototype_keys \<Longrightarrow> calculateCostMicros model 0 0 = Num 0"
  by (simp add: calculateCostMicros_def obj_get_def cost_at_def Math_ceil_def split: option.splits)

text \<open>
  Claim C5. The cost of a completion is the ceiling of
  \<open>(p * input_rate + c * output_rate) / 1000000\<close>, with the rates of the model's row of the
  pricing table, or the default rates (those of \<open>gpt-4o\<close>) when the model is unknown; it is
  a non-negative integer, and 0 for no tokens. The lemmas above show this for every model
  name that is not a member of \<open>Object.prototype\<close>. For such a member the code departs from
  the claim: \<open>constructor\<close> is not a key of the pricing table, so the claim prices one
  prompt and one completion token at the default, 13 micros, as for \<open>gpt-4o\<close> and for any
  other unknown name; the code finds the inherited member instead of the default and
  returns \<open>NaN\<close>.
\<close>

theorem calculateCostMicros_inherited_key:
  "map_of PRICING ''constructor'' = None
   \<and> calculateCostMicros ''constructor'' 1 1 = NaN
   \<and> calculateCostMicros ''gpt-4o'' 1 1 = Num 13
   \<and> calculateCostMicros ''unknown-model-v99'' 1 1 = Num 13"
  by code_simp

lemma cost_gpt4o_100_50: "calculateCostMicros ''gpt-4o'' 100 50 = Num 750"
  by code_simp

lemma cost_gpt35_100_50: "calculateCostMicros ''gpt-3.5-turbo'' 100 50 = Num 125"
  by code_simp

subsection \<open>Billing of a completion\<close>

lemma read_result_reply:
  assumes "read_result t data = Inr (result, usg)"
  shows "res_model result = reply_model data
       \<and> reply_tokens data = Some (prompt_tokens usg, completion_tokens usg)"
  using assms
  by (cases t; cases data)
     (auto simp: read_result_def reply_model_def reply_tokens_def fromAnthropicResponse_def
      split: option.splits)

lemma debit_tx_Inr:
  assumes "debit_tx uid providerName result usg cost s = Inr (after, s')"
  shows "\<exists>acct. accounts s uid = Some acct
           \<and> \<not> js_less (or_zero (balances acct ''USD'')) cost
           \<and> after = js_minus (or_zero (balances acct ''USD'')) cost
           \<and> s' = tx_create
                 \<lparr>entry_accountId = uid, entry_type = llm_usage,
                  entry_currency = ''USD'', entry_amount = cost,
                  entry_balanceBefore = or_zero (balances acct ''USD''),
                  entry_balanceAfter = after,
                  entry_description = res_model result @ '' completion'',
                  entry_metadata =
                    UsageMeta (provider_name providerName) (res_model result)
                      (prompt_tokens usg) (completion_tokens usg)\<rparr>
                 (tx_update uid acct ''USD'' after s)"
  using assms
  by (auto simp: debit_tx_def Let_def split: option.splits if_splits)

lemma debit_tx_insufficient:
  assumes "accounts s uid = Some acct" and "js_less (or_zero (balances acct ''USD'')) cost"
  shows "debit_tx uid providerName result usg cost s = Inl (Error ''INSUFFICIENT_FUNDS'')"
  using assms by (simp add: debit_tx_def)

lemma call_and_debit_Inr:
  assumes "call_and_debit axios_post uid providerName apiKey body s = (Inr ok, s')"
  shows "\<exists>data result usg after.
           axios_post (baseUrl (PROVIDERS providerName)) (requestBody (PROVIDERS providerName) body)
             apiKey = Inr data
           \<and> read_result (translate (PROVIDERS providerName)) data = Inr (result, usg)
           \<and> debit_tx uid providerName result usg
                (calculateCostMicros (res_model result) (prompt_tokens usg) (completion_tokens usg)) s
               = Inr (after, s')
           \<and> ok = Completion result
                (calculateCostMicros (res_model result) (prompt_tokens usg) (completion_tokens usg))
                after (provider_name providerName)"
  using assms
  by (auto simp: call_and_debit_def Let_def runTransaction_def
      split: sum.splits prod.splits)

lemma proxy_catch_2xx:
  assumes "proxy_catch providerName e = Response st p" and "200 \<le> st" and "st < 300"
  shows "\<exists>n. e = AxiosError n"
  using assms
  by (cases e) (auto simp: proxy_catch_def split: if_splits)

lemma call_and_debit_Inl:
  assumes "call_and_debit axios_post uid providerName apiKey body s = (Inl e, s')"
  shows "s' = s \<and> (axios_post (baseUrl (PROVIDERS providerName))
                     (requestBody (PROVIDERS providerName) body) apiKey = Inl e
                  \<or> (\<forall>n. e \<noteq> AxiosError n))"
  using assms
  by (auto simp: call_and_debit_def Let_def runTransaction_def read_result_def debit_tx_def
      split: sum.splits prod.splits option.splits if_splits bool.splits upstream_data.splits)

lemma preflight_no_completion:
  "preflight getApiKey auth body s0 \<noteq> Inl (Response st (Completion result cost after pname))"
  by (auto simp: preflight_def Let_def split: auth_result.splits option.splits if_splits)

lemma proxy_catch_no_completion:
  "proxy_catch providerName e \<noteq> Response st (Completion result cost after pname)"
  by (cases e) (auto simp: proxy_catch_def)

lemma preflight_example:
  "accounts s0 ''agent-a'' = Some acct \<Longrightarrow> \<not> or_zero (balances acct ''USD'') < 1000 \<Longrightarrow>
   preflight (\<lambda>_. Some ''sk-test'') (Verified ''agent-a'')
        (simple_request ''gpt-3.5-turbo'' [\<lparr>role = ''user'', content = ''hi''\<rparr>]) s0
     = Inr (''agent-a'', openai, ''sk-test'')"
  by (simp add: preflight_def simple_request_def detectProvider_def startsWith_def
      MIN_BALANCE_MICROS_def)

text \<open>
  Claim C1. Take a completion call that passed the checks made before the provider is called, and
  whose provider call succeeded.
  If the USD balance read inside the debit transaction is less than the computed cost, the
  transaction throws INSUFFICIENT_FUNDS, the handler answers 402, and the store (balances
  and journal) is unchanged. And if the handler answers with a 2xx status, then the debit of
  the USD balance and exactly one new journal entry, of type \<open>llm_usage\<close>, were committed
  together.
\<close>

theorem debit_or_402:
  assumes pre: "preflight getApiKey auth body s0 = Inr (uid, providerName, apiKey)"
    and up: "axios_post (baseUrl (PROVIDERS providerName))
               (requestBody (PROVIDERS providerName) body) apiKey = Inr data"
  shows "(\<forall>acct result usg.
            accounts s uid = Some acct
            \<and> read_result (translate (PROVIDERS providerName)) data = Inr (result, usg)
            \<and> js_less (or_zero (balances acct ''USD''))
                 (calculateCostMicros (res_model result) (prompt_tokens usg) (completion_tokens usg))
            \<longrightarrow> debit_tx uid providerName result usg
                  (calculateCostMicros (res_model result) (prompt_tokens usg)
                     (completion_tokens usg)) s
                  = Inl (Error ''INSUFFICIENT_FUNDS'')
                \<and> chat_completions getApiKey axios_post auth body s0 s
                  = (Response 402 (ProxyError ''Insufficient USD balance''), s))
       \<and> (\<forall>st payload s'.
            chat_completions getApiKey axios_post auth body s0 s = (Response st payload, s')
            \<and> 200 \<le> st \<and> st < 300
            \<longrightarrow> (\<exists>acct e.
                   accounts s uid = Some acct
                   \<and> entry_type e = llm_usage \<and> entry_accountId e = uid
                   \<and> entry_currency e = ''USD''
                   \<and> \<not> js_less (or_zero (balances acct ''USD'')) (entry_amount e)
                   \<and> accounts s' = (accounts s)(uid \<mapsto> acct\<lparr>balances := (balances acct)
                        (''USD'' \<mapsto> js_minus (or_zero (balances acct ''USD'')) (entry_amount e))\<rparr>)
                   \<and> transactions s' = transactions s @ [e]))"
proof (rule conjI; intro allI impI)
  fix acct result usg
  assume "accounts s uid = Some acct
            \<and> read_result (translate (PROVIDERS providerName)) data = Inr (result, usg)
            \<and> js_less (or_zero (balances acct ''USD''))
                 (calculateCostMicros (res_model result) (prompt_tokens usg) (completion_tokens usg))"
  then have tx: "debit_tx uid providerName result usg
                  (calculateCostMicros (res_model result) (prompt_tokens usg)
                     (completion_tokens usg)) s
                  = Inl (Error ''INSUFFICIENT_FUNDS'')"
    and rr: "read_result (translate (PROVIDERS providerName)) data = Inr (result, usg)"
    by (simp_all add: debit_tx_insufficient)
  then have "call_and_debit axios_post uid providerName apiKey body s
               = (Inl (Error ''INSUFFICIENT_FUNDS''), s)"
    using up
    by (simp add: call_and_debit_def Let_def runTransaction_def)
  then have "chat_completions getApiKey axios_post auth body s0 s
                  = (Response 402 (ProxyError ''Insufficient USD balance''), s)"
    by (simp add: chat_completions_def pre proxy_catch_def)
  with tx show "debit_tx uid providerName result usg
                  (calculateCostMicros (res_model result) (prompt_tokens usg)
                     (completion_tokens usg)) s
                  = Inl (Error ''INSUFFICIENT_FUNDS'')
                \<and> chat_completions getApiKey axios_post auth body s0 s
                  = (Response 402 (ProxyError ''Insufficient USD balance''), s)"
    by simp
next
  fix st payload s'
  assume a: "chat_completions getApiKey axios_post auth body s0 s = (Response st payload, s')
            \<and> 200 \<le> st \<and> st < 300"
  obtain r s1 where cd: "call_and_debit axios_post uid providerName apiKey body s = (r, s1)"
    by (cases "call_and_debit axios_post uid providerName apiKey body s")
  show "\<exists>acct e.
                   accounts s uid = Some acct
                   \<and> entry_type e = llm_usage \<and> entry_accountId e = uid
                   \<and> entry_currency e = ''USD''
                   \<and> \<not> js_less (or_zero (balances acct ''USD'')) (entry_amount e)
                   \<and> accounts s' = (accounts s)(uid \<mapsto> acct\<lparr>balances := (balances acct)
                        (''USD'' \<mapsto> js_minus (or_zero (balances acct ''USD'')) (entry_amount e))\<rparr>)
                   \<and> transactions s' = transactions s @ [e]"
  proof (cases r)
    case (Inl e)
    with a cd have "proxy_catch providerName e = Response st payload"
      by (simp add: chat_completions_def pre)
    with a obtain n where "e = AxiosError n"
      using proxy_catch_2xx by blast
    with call_and_debit_Inl [of axios_post uid providerName apiKey body s e s1] cd Inl up
    show ?thesis by auto
  next
    case (Inr ok)
    with a cd have s1: "s1 = s'"
      by (simp add: chat_completions_def pre)
    from call_and_debit_Inr [of axios_post uid providerName apiKey body s ok s1] cd Inr s1
    obtain result usg after where
      "debit_tx uid providerName result usg
         (calculateCostMicros (res_model result) (prompt_tokens usg) (completion_tokens usg)) s
       = Inr (after, s')"
      by auto
    from debit_tx_Inr [OF this] show ?thesis
      by (auto simp: tx_create_def tx_update_def)
  qed
qed

text \<open>
  An instance: the balance passes the pre-check at 2000 micros but is drained to 0 before the
  transaction, and the reply costs 750 micros, so the call answers 402 and changes nothing;
  with the balance still at 2000 the same call commits one journal entry.
\<close>

theorem debit_or_402_witness:
  "chat_completions (\<lambda>_. Some ''sk-test'') (\<lambda>_ _ _. Inr (mockOpenAIResponse ''gpt-4o'' 100 50))
      (Verified ''agent-a'')
      (simple_request ''gpt-3.5-turbo'' [\<lparr>role = ''user'', content = ''hi''\<rparr>])
      (seedAccount ''agent-a'' (EMPTY_BALANCES(''USD'' \<mapsto> Num 2000)) empty_store)
      (seedAccount ''agent-a'' EMPTY_BALANCES empty_store)
     = (Response 402 (ProxyError ''Insufficient USD balance''),
        seedAccount ''agent-a'' EMPTY_BALANCES empty_store)
   \<and> length (transactions (snd (chat_completions (\<lambda>_. Some ''sk-test'')
      (\<lambda>_ _ _. Inr (mockOpenAIResponse ''gpt-4o'' 100 50))
      (Verified ''agent-a'')
      (simple_request ''gpt-3.5-turbo'' [\<lparr>role = ''user'', content = ''hi''\<rparr>])
      (seedAccount ''agent-a'' (EMPTY_BALANCES(''USD'' \<mapsto> Num 2000)) empty_store)
      (seedAccount ''agent-a'' (EMPTY_BALANCES(''USD'' \<mapsto> Num 2000)) empty_store)))) = 1"
proof -
  let ?s0 = "seedAccount ''agent-a'' (EMPTY_BALANCES(''USD'' \<mapsto> Num 2000)) empty_store"
  let ?drained = "seedAccount ''agent-a'' EMPTY_BALANCES empty_store"
  let ?post = "\<lambda>(_ :: string) (_ :: upstream_body) (_ :: string).
                 (Inr (mockOpenAIResponse ''gpt-4o'' 100 50) :: js_error + upstream_data)"
  let ?req = "simple_request ''gpt-3.5-turbo'' [\<lparr>role = ''user'', content = ''hi''\<rparr>]"
  let ?reply = "\<lparr>res_id = ''chatcmpl-abc123'', res_model = ''gpt-4o'',
             res_content = ''Hello! How can I help?'',
             res_usage = Some \<lparr>prompt_tokens = 100, completion_tokens = 50, total_tokens = 150\<rparr>\<rparr>"
  have g: "preflight (\<lambda>_. Some ''sk-test'') (Verified ''agent-a'') ?req ?s0
             = Inr (''agent-a'', openai, ''sk-test'')"
    by (rule preflight_example [where acct = "\<lparr>balances = EMPTY_BALANCES(''USD'' \<mapsto> Num 2000),
          status = ''active'', email = ''agent-a@test.com''\<rparr>"])
       (simp_all add: seedAccount_def empty_store_def)
  have up: "?post (baseUrl (PROVIDERS openai)) (requestBody (PROVIDERS openai) ?req) ''sk-test''
             = Inr (mockOpenAIResponse ''gpt-4o'' 100 50)"
    by simp
  note main = debit_or_402 [of "\<lambda>_. Some ''sk-test''" "Verified ''agent-a''" ?req ?s0
      "''agent-a''" openai "''sk-test''" ?post "mockOpenAIResponse ''gpt-4o'' 100 50", OF g up]
  have rr: "read_result (translate (PROVIDERS openai)) (mockOpenAIResponse ''gpt-4o'' 100 50)
              = Inr (?reply, \<lparr>prompt_tokens = 100, completion_tokens = 50, total_tokens = 150\<rparr>)"
    by (simp add: read_result_def mockOpenAIResponse_def)
  have first: "chat_completions (\<lambda>_. Some ''sk-test'') ?post (Verified ''agent-a'') ?req ?s0 ?drained
      = (Response 402 (ProxyError ''Insufficient USD balance''), ?drained)"
    using main [of ?drained, THEN conjunct1, rule_format,
        of "\<lparr>balances = EMPTY_BALANCES, status = ''active'', email = ''agent-a@test.com''\<rparr>"
           ?reply "\<lparr>prompt_tokens = 100, completion_tokens = 50, total_tokens = 150\<rparr>"]
      rr
    by (simp add: cost_gpt4o_100_50 seedAccount_def empty_store_def EMPTY_BALANCES_def
        SUPPORTED_def)
  have out: "fst (chat_completions (\<lambda>_. Some ''sk-test'') ?post (Verified ''agent-a'') ?req ?s0 ?s0)
      = Response 200 (Completion ?reply (Num 750) (Num 1250) ''openai'')"
    unfolding chat_completions_def g
    by (simp add: call_and_debit_def requestBody_def read_result_def
        mockOpenAIResponse_def cost_gpt4o_100_50 runTransaction_def debit_tx_def
        seedAccount_def empty_store_def Let_def)
  then have run: "chat_completions (\<lambda>_. Some ''sk-test'') ?post (Verified ''agent-a'') ?req ?s0 ?s0
      = (Response 200 (Completion ?reply (Num 750) (Num 1250) ''openai''),
         snd (chat_completions (\<lambda>_. Some ''sk-test'') ?post (Verified ''agent-a'') ?req ?s0 ?s0))"
    by (metis prod.collapse)
  from main [of ?s0, THEN conjunct2, rule_format, OF conjI [OF run]]
  obtain e where "transactions (snd (chat_completions (\<lambda>_. Some ''sk-test'') ?post
      (Verified ''agent-a'') ?req ?s0 ?s0)) = transactions ?s0 @ [e]"
    by auto
  then have "length (transactions (snd (chat_completions (\<lambda>_. Some ''sk-test'') ?post
      (Verified ''agent-a'') ?req ?s0 ?s0))) = 1"
    by (simp add: seedAccount_def empty_store_def)
  with first show ?thesis by simp
qed

text \<open>
  Claim C2. A completion call that succeeds (it answers with the completion and the billing
  headers) debits, and records as the amount of its \<open>llm_usage\<close> entry, exactly
  \<open>calculateCostMicros m p c\<close>, where \<open>m\<close> is the model named in the provider's reply and
  \<open>p\<close>, \<open>c\<close> are the prompt and completion token counts of the reply's usage; the model of
  the client's request plays no part.
\<close>

theorem billed_from_reply:
  assumes "chat_completions getApiKey axios_post auth body s0 s
             = (Response st (Completion result cost after pname), s')"
  shows "\<exists>uid providerName apiKey data p c acct e.
           st = 200
           \<and> preflight getApiKey auth body s0 = Inr (uid, providerName, apiKey)
           \<and> axios_post (baseUrl (PROVIDERS providerName))
                (requestBody (PROVIDERS providerName) body) apiKey = Inr data
           \<and> res_model result = reply_model data
           \<and> reply_tokens data = Some (p, c)
           \<and> cost = calculateCostMicros (reply_model data) p c
           \<and> accounts s uid = Some acct
           \<and> after = js_minus (or_zero (balances acct ''USD'')) cost
           \<and> accounts s' = (accounts s)(uid \<mapsto> acct\<lparr>balances := (balances acct)
                (''USD'' \<mapsto> js_minus (or_zero (balances acct ''USD'')) cost)\<rparr>)
           \<and> transactions s' = transactions s @ [e]
           \<and> entry_type e = llm_usage \<and> entry_accountId e = uid
           \<and> entry_currency e = ''USD''
           \<and> entry_amount e = cost
           \<and> entry_balanceBefore e = or_zero (balances acct ''USD'')
           \<and> entry_balanceAfter e = js_minus (or_zero (balances acct ''USD'')) cost
           \<and> entry_metadata e = UsageMeta (provider_name providerName) (reply_model data) p c"
proof -
  from assms obtain uid providerName apiKey where
    pre: "preflight getApiKey auth body s0 = Inr (uid, providerName, apiKey)"
    using preflight_no_completion [of getApiKey auth body s0 st result cost after pname]
    by (cases "preflight getApiKey auth body s0") (auto simp: chat_completions_def)
  obtain r s1 where cd: "call_and_debit axios_post uid providerName apiKey body s = (r, s1)"
    by (cases "call_and_debit axios_post uid providerName apiKey body s")
  from assms cd pre have r: "r = Inr (Completion result cost after pname)" and s1: "s1 = s'"
    and st: "st = 200"
    using proxy_catch_no_completion [of providerName _ st result cost after pname]
    by (cases r; simp add: chat_completions_def)+
  from call_and_debit_Inr [OF cd [unfolded r s1]] obtain data usg where
    up: "axios_post (baseUrl (PROVIDERS providerName))
           (requestBody (PROVIDERS providerName) body) apiKey = Inr data"
    and rr: "read_result (translate (PROVIDERS providerName)) data = Inr (result, usg)"
    and tx: "debit_tx uid providerName result usg cost s = Inr (after, s')"
    and cost: "cost = calculateCostMicros (res_model result) (prompt_tokens usg)
                        (completion_tokens usg)"
    by auto
  note reply = read_result_reply [OF rr]
  from debit_tx_Inr [OF tx] obtain acct where
    acct: "accounts s uid = Some acct"
    and after: "after = js_minus (or_zero (balances acct ''USD'')) cost"
    and s': "s' = tx_create
                 \<lparr>entry_accountId = uid, entry_type = llm_usage,
                  entry_currency = ''USD'', entry_amount = cost,
                  entry_balanceBefore = or_zero (balances acct ''USD''),
                  entry_balanceAfter = after,
                  entry_description = res_model result @ '' completion'',
                  entry_metadata =
                    UsageMeta (provider_name providerName) (res_model result)
                      (prompt_tokens usg) (completion_tokens usg)\<rparr>
                 (tx_update uid acct ''USD'' after s)"
    by blast
  show ?thesis
    apply (rule exI [of _ uid], rule exI [of _ providerName], rule exI [of _ apiKey])
    apply (rule exI [of _ data], rule exI [of _ "prompt_tokens usg"])
    apply (rule exI [of _ "completion_tokens usg"], rule exI [of _ acct])
    apply (rule exI [of _ "\<lparr>entry_accountId = uid, entry_type = llm_usage,
                  entry_currency = ''USD'', entry_amount = cost,
                  entry_balanceBefore = or_zero (balances acct ''USD''),
                  entry_balanceAfter = after,
                  entry_description = res_model result @ '' completion'',
                  entry_metadata =
                    UsageMeta (provider_name providerName) (res_model result)
                      (prompt_tokens usg) (completion_tokens usg)\<rparr>"])
    using st pre up reply cost acct after
    apply (simp add: s' tx_create_def tx_update_def)
    done
qed

text \<open>
  An instance: the request names \<open>gpt-3.5-turbo\<close>, the reply names \<open>gpt-4o\<close> with usage
  (100, 50). The entry's amount is the cost at the rates of \<open>gpt-4o\<close> (750 micros), which
  differs from the cost at the rates of the requested model (125 micros).
\<close>

theorem billed_from_reply_witness:
  "fst (chat_completions (\<lambda>_. Some ''sk-test'') (\<lambda>_ _ _. Inr (mockOpenAIResponse ''gpt-4o'' 100 50))
          (Verified ''agent-a'')
          (simple_request ''gpt-3.5-turbo'' [\<lparr>role = ''user'', content = ''hi''\<rparr>])
          (seedAccount ''agent-a'' (EMPTY_BALANCES(''USD'' \<mapsto> Num 10000000)) empty_store)
          (seedAccount ''agent-a'' (EMPTY_BALANCES(''USD'' \<mapsto> Num 10000000)) empty_store))
     = Response 200
         (Completion
            \<lparr>res_id = ''chatcmpl-abc123'', res_model = ''gpt-4o'',
             res_content = ''Hello! How can I help?'',
             res_usage = Some \<lparr>prompt_tokens = 100, completion_tokens = 50, total_tokens = 150\<rparr>\<rparr>
            (Num 750) (Num 9999250) ''openai'')
   \<and> map entry_amount
        (transactions (snd (chat_completions (\<lambda>_. Some ''sk-test'')
          (\<lambda>_ _ _. Inr (mockOpenAIResponse ''gpt-4o'' 100 50))
          (Verified ''agent-a'')
          (simple_request ''gpt-3.5-turbo'' [\<lparr>role = ''user'', content = ''hi''\<rparr>])
          (seedAccount ''agent-a'' (EMPTY_BALANCES(''USD'' \<mapsto> Num 10000000)) empty_store)
          (seedAccount ''agent-a'' (EMPTY_BALANCES(''USD'' \<mapsto> Num 10000000)) empty_store))))
     = [calculateCostMicros ''gpt-4o'' 100 50]
   \<and> calculateCostMicros ''gpt-4o'' 100 50 \<noteq> calculateCostMicros ''gpt-3.5-turbo'' 100 50"
proof -
  let ?s = "seedAccount ''agent-a'' (EMPTY_BALANCES(''USD'' \<mapsto> Num 10000000)) empty_store"
  let ?run = "chat_completions (\<lambda>_. Some ''sk-test'')
          (\<lambda>_ _ _. Inr (mockOpenAIResponse ''gpt-4o'' 100 50))
          (Verified ''agent-a'')
          (simple_request ''gpt-3.5-turbo'' [\<lparr>role = ''user'', content = ''hi''\<rparr>]) ?s ?s"
  let ?reply = "\<lparr>res_id = ''chatcmpl-abc123'', res_model = ''gpt-4o'',
             res_content = ''Hello! How can I help?'',
             res_usage = Some \<lparr>prompt_tokens = 100, completion_tokens = 50, total_tokens = 150\<rparr>\<rparr>"
  have g: "preflight (\<lambda>_. Some ''sk-test'') (Verified ''agent-a'')
        (simple_request ''gpt-3.5-turbo'' [\<lparr>role = ''user'', content = ''hi''\<rparr>]) ?s
     = Inr (''agent-a'', openai, ''sk-test'')"
    by (rule preflight_example [where acct = "\<lparr>balances = EMPTY_BALANCES(''USD'' \<mapsto> Num 10000000),
          status = ''active'', email = ''agent-a@test.com''\<rparr>"])
       (simp_all add: seedAccount_def empty_store_def)
  have out: "fst ?run = Response 200 (Completion ?reply (Num 750) (Num 9999250) ''openai'')"
    unfolding chat_completions_def g
    by (simp add: call_and_debit_def requestBody_def read_result_def
        mockOpenAIResponse_def cost_gpt4o_100_50 runTransaction_def debit_tx_def
        seedAccount_def empty_store_def Let_def)
  then have run: "?run = (Response 200 (Completion ?reply (Num 750) (Num 9999250) ''openai''), snd ?run)"
    by (metis prod.collapse)
  from billed_from_reply [OF run] obtain e where
    "transactions (snd ?run) = transactions ?s @ [e]" "entry_amount e = Num 750"
    by blast
  then have "map entry_amount (transactions (snd ?run)) = [Num 750]"
    by (simp add: seedAccount_def empty_store_def)
  with out show ?thesis
    by (simp add: cost_gpt4o_100_50 cost_gpt35_100_50)
qed

subsection \<open>Translation for Anthropic\<close>

lemma translate_loop_fst:
  "fst (translate_loop ms sys acc)
     = foldl add_system sys (map content (filter (\<lambda>x. role x = ''system'') ms))"
  by (induction ms arbitrary: sys acc) simp_all

lemma translate_loop_snd:
  "snd (translate_loop ms sys acc)
     = foldl push_or_merge acc (filter (\<lambda>x. role x \<noteq> ''system'') ms)"
  by (induction ms arbitrary: sys acc) simp_all

lemma push_or_merge_snoc:
  "push_or_merge (acc @ [a]) m =
     (if role a = role m then acc @ [a\<lparr>content := content a @ [CHR 0x0A] @ content m\<rparr>]
      else acc @ [a, m])"
  by (simp add: push_or_merge_def)

lemma foldl_push_or_merge_snoc:
  "foldl push_or_merge (acc @ [a]) xs = acc @ coalesce (a # xs)"
proof (induction xs arbitrary: acc a)
  case Nil
  show ?case by simp
next
  case (Cons x xs)
  show ?case
  proof (cases "role a = role x")
    case True
    then show ?thesis
      using Cons.IH [of acc "a\<lparr>content := content a @ [CHR 0x0A] @ content x\<rparr>"]
      by (simp add: push_or_merge_snoc)
  next
    case False
    then show ?thesis
      using Cons.IH [of "acc @ [a]" x]
      by (simp add: push_or_merge_snoc)
  qed
qed

lemma foldl_push_or_merge_Nil: "foldl push_or_merge [] xs = coalesce xs"
proof (cases xs)
  case Nil
  then show ?thesis by simp
next
  case (Cons x xs')
  have "push_or_merge [] x = [] @ [x]"
    by (simp add: push_or_merge_def)
  then show ?thesis
    using foldl_push_or_merge_snoc [of "[]" x xs'] Cons by simp
qed

lemma join_nl_merge: "join_nl ((x @ CHR 0x0A # c) # cs) = x @ CHR 0x0A # join_nl (c # cs)"
  by (cases cs) simp_all

lemma add_system_truthy: "sys \<noteq> [] \<Longrightarrow> add_system (Some sys) c = Some (sys @ CHR 0x0A # c)"
  by (simp add: add_system_def)

lemma foldl_add_system_truthy:
  "sys \<noteq> [] \<Longrightarrow> foldl add_system (Some sys) cs = Some (join_nl (sys # cs))"
proof (induction cs arbitrary: sys)
  case Nil
  show ?case by simp
next
  case (Cons c cs)
  have "foldl add_system (Some (sys @ CHR 0x0A # c)) cs
          = Some (join_nl ((sys @ CHR 0x0A # c) # cs))"
    by (rule Cons.IH) simp
  with Cons.prems show ?case
    by (simp add: add_system_truthy join_nl_merge)
qed

lemma foldl_add_system_falsy:
  assumes "acc = None \<or> acc = Some []"
  shows "foldl add_system acc cs
           = (if cs = [] then acc else Some (join_nl (dropWhile (\<lambda>c. c = []) cs)))"
  using assms
proof (induction cs arbitrary: acc)
  case Nil
  show ?case by simp
next
  case (Cons c cs)
  from Cons.prems have step: "add_system acc c = Some c"
    by (auto simp: add_system_def)
  show ?case
  proof (cases "c = []")
    case True
    with step Cons.IH [of "Some []"] show ?thesis
      by (cases cs) simp_all
  next
    case False
    with step foldl_add_system_truthy [of c cs] show ?thesis
      by simp
  qed
qed

lemma system_field:
  "(let system = foldl add_system None cs in if truthy_string system then system else None)
     = (let sys = join_nl (dropWhile (\<lambda>c. c = []) cs) in if sys = [] then None else Some sys)"
  by (cases cs) (simp_all add: foldl_add_system_falsy truthy_string_def Let_def del: foldl_Cons)

lemma claude_not_inherited:
  "startsWith m ''claude-'' \<Longrightarrow> m \<notin> set object_prototype_keys"
  by (auto simp: startsWith_def object_prototype_keys_def)

lemma detectProvider_anthropic: "detectProvider m = anthropic \<Longrightarrow> startsWith m ''claude-''"
  by (auto simp: detectProvider_def split: if_splits)

lemma max_tokens_table:
  "m \<notin> set object_prototype_keys \<Longrightarrow>
   obj_get ANTHROPIC_MAX_TOKENS m
     = (if m \<in> fst ` set ANTHROPIC_MAX_TOKENS then Own 8192 else Absent)"
  by (auto simp: obj_get_def ANTHROPIC_MAX_TOKENS_def)

text \<open>
  Claim C8, as amended. For a request routed to Anthropic: the \<open>system\<close> field is the
  contents of the system messages, from the first non-empty one on, joined with newlines,
  and the field is absent when that text is empty; the remaining messages are coalesced,
  adjacent messages of the same role becoming one whose content is joined with a newline;
  \<open>max_tokens\<close> is the caller's value if present and not 0, else 8192 for the five models of
  the table, else 4096; and \<open>stop\<close> becomes \<open>stop_sequences\<close>, always an array, unless it
  is absent or the empty string.
\<close>

theorem toAnthropicRequest_translation:
  assumes "req_model body = Some m" and "detectProvider m = anthropic"
  shows "areq_system (toAnthropicRequest body)
           = (let sys = join_nl (dropWhile (\<lambda>c. c = [])
                          (map content (filter (\<lambda>x. role x = ''system'') (req_messages body))))
              in if sys = [] then None else Some sys)
       \<and> areq_messages (toAnthropicRequest body)
           = coalesce (filter (\<lambda>x. role x \<noteq> ''system'') (req_messages body))
       \<and> areq_max_tokens (toAnthropicRequest body)
           = MaxTokens
               (let dflt = (if m \<in> fst ` set ANTHROPIC_MAX_TOKENS then 8192 else 4096)
                in case req_max_tokens body of
                     None \<Rightarrow> dflt
                   | Some v \<Rightarrow> if v = 0 then dflt else v)
       \<and> areq_stop_sequences (toAnthropicRequest body)
           = (case req_stop body of
                None \<Rightarrow> None
              | Some (StopArray xs) \<Rightarrow> Some xs
              | Some (StopString x) \<Rightarrow> if x = [] then None else Some [x])"
proof -
  obtain system filtered where
    loop: "translate_loop (req_messages body) None [] = (system, filtered)"
    by (cases "translate_loop (req_messages body) None []")
  from translate_loop_fst [of "req_messages body" None "[]"] loop
  have sys: "system = foldl add_system None
               (map content (filter (\<lambda>x. role x = ''system'') (req_messages body)))"
    by simp
  from translate_loop_snd [of "req_messages body" None "[]"] loop
  have fil: "filtered = coalesce (filter (\<lambda>x. role x \<noteq> ''system'') (req_messages body))"
    by (simp add: foldl_push_or_merge_Nil)
  have a: "areq_system (toAnthropicRequest body)
           = (let sys = join_nl (dropWhile (\<lambda>c. c = [])
                          (map content (filter (\<lambda>x. role x = ''system'') (req_messages body))))
              in if sys = [] then None else Some sys)"
    using system_field [of "map content (filter (\<lambda>x. role x = ''system'') (req_messages body))"]
    by (simp add: toAnthropicRequest_def loop sys Let_def)
  have b: "areq_messages (toAnthropicRequest body)
           = coalesce (filter (\<lambda>x. role x \<noteq> ''system'') (req_messages body))"
    by (simp add: toAnthropicRequest_def loop fil)
  have "m \<notin> set object_prototype_keys"
    using assms(2) by (intro claude_not_inherited detectProvider_anthropic)
  then have c: "areq_max_tokens (toAnthropicRequest body)
           = MaxTokens
               (let dflt = (if m \<in> fst ` set ANTHROPIC_MAX_TOKENS then 8192 else 4096)
                in case req_max_tokens body of
                     None \<Rightarrow> dflt
                   | Some v \<Rightarrow> if v = 0 then dflt else v)"
    using assms(1)
    by (simp add: toAnthropicRequest_def loop max_tokens_for_def max_tokens_table Let_def
        split: option.splits)
  have d: "areq_stop_sequences (toAnthropicRequest body)
           = (case req_stop body of
                None \<Rightarrow> None
              | Some (StopArray xs) \<Rightarrow> Some xs
              | Some (StopString x) \<Rightarrow> if x = [] then None else Some [x])"
    by (simp add: toAnthropicRequest_def loop stop_sequences_of_def)
  from a b c d show ?thesis by simp
qed

text \<open>
  An instance, scenario S5 of the specification.
\<close>

theorem toAnthropicRequest_translation_witness:
  "areq_system (toAnthropicRequest (simple_request ''claude-sonnet-4-20250514''
       [\<lparr>role = ''system'', content = ''You are helpful.''\<rparr>,
        \<lparr>role = ''user'', content = ''Part 1''\<rparr>,
        \<lparr>role = ''user'', content = ''Part 2''\<rparr>]))
     = Some ''You are helpful.''
   \<and> areq_messages (toAnthropicRequest (simple_request ''claude-sonnet-4-20250514''
       [\<lparr>role = ''system'', content = ''You are helpful.''\<rparr>,
        \<lparr>role = ''user'', content = ''Part 1''\<rparr>,
        \<lparr>role = ''user'', content = ''Part 2''\<rparr>]))
     = [\<lparr>role = ''user'', content = ''Part 1'' @ [CHR 0x0A] @ ''Part 2''\<rparr>]
   \<and> areq_max_tokens (toAnthropicRequest (simple_request ''claude-sonnet-4-20250514''
       [\<lparr>role = ''system'', content = ''You are helpful.''\<rparr>,
        \<lparr>role = ''user'', content = ''Part 1''\<rparr>,
        \<lparr>role = ''user'', content = ''Part 2''\<rparr>]))
     = MaxTokens 8192"
  using toAnthropicRequest_translation
    [of "simple_request ''claude-sonnet-4-20250514''
       [\<lparr>role = ''system'', content = ''You are helpful.''\<rparr>,
        \<lparr>role = ''user'', content = ''Part 1''\<rparr>,
        \<lparr>role = ''user'', content = ''Part 2''\<rparr>]" "''claude-sonnet-4-20250514''"]
  by (simp add: simple_request_def detectProvider_def startsWith_def ANTHROPIC_MAX_TOKENS_def)

text \<open>
  Claim C8 as stated fails on values that JavaScript counts as false: an empty first system
  message is dropped instead of joined, a \<open>max_tokens\<close> of 0 is replaced by the default,
  and an empty \<open>stop\<close> string gives no \<open>stop_sequences\<close>. And a Claude model that the
  table does not list gets 4096, not 8192.
\<close>

theorem toAnthropicRequest_falsy_fields:
  "areq_system (toAnthropicRequest
       ((simple_request ''claude-sonnet-4-20250514''
           [\<lparr>role = ''system'', content = []\<rparr>,
            \<lparr>role = ''system'', content = ''You are helpful.''\<rparr>,
            \<lparr>role = ''user'', content = ''Hi''\<rparr>])
        \<lparr>req_max_tokens := Some 0, req_stop := Some (StopString [])\<rparr>))
     = Some ''You are helpful.''
   \<and> join_nl [[], ''You are helpful.''] = CHR 0x0A # ''You are helpful.''
   \<and> areq_max_tokens (toAnthropicRequest
       ((simple_request ''claude-sonnet-4-20250514''
           [\<lparr>role = ''system'', content = []\<rparr>,
            \<lparr>role = ''system'', content = ''You are helpful.''\<rparr>,
            \<lparr>role = ''user'', content = ''Hi''\<rparr>])
        \<lparr>req_max_tokens := Some 0, req_stop := Some (StopString [])\<rparr>))
     = MaxTokens 8192
   \<and> areq_stop_sequences (toAnthropicRequest
       ((simple_request ''claude-sonnet-4-20250514''
           [\<lparr>role = ''system'', content = []\<rparr>,
            \<lparr>role = ''system'', content = ''You are helpful.''\<rparr>,
            \<lparr>role = ''user'', content = ''Hi''\<rparr>])
        \<lparr>req_max_tokens := Some 0, req_stop := Some (StopString [])\<rparr>))
     = None
   \<and> areq_max_tokens (toAnthropicRequest
       (simple_request ''claude-3-opus-20240229'' [\<lparr>role = ''user'', content = ''Hi''\<rparr>]))
     = MaxTokens 4096"
  by (simp add: toAnthropicRequest_def simple_request_def add_system_def push_or_merge_def
      truthy_string_def max_tokens_for_def obj_get_def ANTHROPIC_MAX_TOKENS_def
      object_prototype_keys_def
      stop_sequences_of_def)

subsection \<open>The admin key\<close>

text \<open>
  Claim C9. The admin check succeeds only when \<open>ADMIN_API_KEY\<close> is set (and not empty)
  and the \<open>X-Admin-Key\<close> header equals it. For every other header value, and for a missing
  header, POST /deposit answers 403 and the store (balances and journal) is unchanged.
\<close>

theorem admin_key_check:
  "(isAdmin K h \<longrightarrow> (\<exists>key. K = Some key \<and> key \<noteq> [] \<and> h = Some key))
   \<and> (\<not> (\<exists>key. K = Some key \<and> key \<noteq> [] \<and> h = Some key) \<longrightarrow>
        deposit_handler K ''POST'' h accountId amount currency s
          = (Response 403 (ErrorMsg ''Forbidden''), s))"
  by (auto simp: isAdmin_def deposit_handler_def split: option.splits)

text \<open>
  An instance: the injection payload of scenario S6.
\<close>

theorem admin_key_check_witness:
  "\<not> isAdmin (Some ''test-admin-key-12345'') (Some (CHR 0x27 # '' OR 1=1 --''))
   \<and> deposit_handler (Some ''test-admin-key-12345'') ''POST'' (Some (CHR 0x27 # '' OR 1=1 --''))
        (Some ''agent-a'') (Some 10000000) (Some ''USD'')
        (seedAccount ''agent-a'' EMPTY_BALANCES empty_store)
      = (Response 403 (ErrorMsg ''Forbidden''), seedAccount ''agent-a'' EMPTY_BALANCES empty_store)"
  using admin_key_check [of "Some ''test-admin-key-12345''" "Some (CHR 0x27 # '' OR 1=1 --'')"
      "Some ''agent-a''" "Some 10000000" "Some ''USD''"
      "seedAccount ''agent-a'' EMPTY_BALANCES empty_store"]
  by simp

subsection \<open>Transfers\<close>







subsection \<open>Currency conversion\<close>

















subsection \<open>The balance invariant\<close>

lemma balances_all_create [simp]: "balances_all P (tx_create e s) = balances_all P s"
  by (simp add: balances_all_def tx_create_def)


lemma balances_all_account:
  "balances_all P s \<Longrightarrow> accounts s uid = Some acct \<Longrightarrow> k \<in> set SUPPORTED \<Longrightarrow> P (balances acct k)"
  by (auto simp: balances_all_def)




















end
